theory Spec2Isabelle
  imports Main "HOL-Library.AList" "HOL-Library.Sublist"
begin

section \<open>Python values\<close>

text \<open>
  The values that travel through \<^verbatim>\<open>tools.py\<close> and \<^verbatim>\<open>server.py\<close> are what a JSON
  decoder produces: \<^verbatim>\<open>None\<close>, booleans, integers, floats, strings, lists and dicts with
  string keys. A dict is an association list in insertion order; a Python dict has each
  key once, which is the side condition \<open>distinct (map fst d)\<close> where it matters. A float
  is carried by its \<^verbatim>\<open>repr\<close> only (no arithmetic is done on one). Strings are lists of
  characters; the model reads them as ASCII.
\<close>

datatype pyval =
    PNone
  | PBool bool
  | PInt int
  | PFloat string
  | PStr string
  | PList "pyval list"
  | PDict "(string \<times> pyval) list"

type_synonym pydict = "(string \<times> pyval) list"

text \<open>Truth value testing (\<^verbatim>\<open>if x:\<close>, \<^verbatim>\<open>not x\<close>).\<close>

fun truthy :: "pyval \<Rightarrow> bool" where
  "truthy PNone = False"
| "truthy (PBool b) = b"
| "truthy (PInt i) = (i \<noteq> 0)"
| "truthy (PFloat r) = (r \<noteq> ''0.0'' \<and> r \<noteq> ''-0.0'')"
| "truthy (PStr s) = (s \<noteq> [])"
| "truthy (PList xs) = (xs \<noteq> [])"
| "truthy (PDict d) = (d \<noteq> [])"

text \<open>\<^verbatim>\<open>type(x).__name__\<close>, as it appears in the messages of AttributeError and TypeError.\<close>

fun type_name :: "pyval \<Rightarrow> string" where
  "type_name PNone = ''NoneType''"
| "type_name (PBool _) = ''bool''"
| "type_name (PInt _) = ''int''"
| "type_name (PFloat _) = ''float''"
| "type_name (PStr _) = ''str''"
| "type_name (PList _) = ''list''"
| "type_name (PDict _) = ''dict''"

subsection \<open>\<^verbatim>\<open>str\<close> and \<^verbatim>\<open>repr\<close>\<close>

fun str_nat :: "nat \<Rightarrow> string" where
  "str_nat n =
     (if n < 10 then [''0123456789'' ! n]
      else str_nat (n div 10) @ [''0123456789'' ! (n mod 10)])"

declare str_nat.simps [simp del]

definition str_int :: "int \<Rightarrow> string" where
  "str_int i = (if i < 0 then ''-'' @ str_nat (nat (- i)) else str_nat (nat i))"

abbreviation sq :: string where "sq \<equiv> [CHR 0x27]"
abbreviation dq :: string where "dq \<equiv> [CHR 0x22]"
abbreviation backslash :: char where "backslash \<equiv> CHR 0x5C"

definition hex2 :: "nat \<Rightarrow> string" where
  "hex2 n = [''0123456789abcdef'' ! (n div 16 mod 16), ''0123456789abcdef'' ! (n mod 16)]"

text \<open>
  \<^verbatim>\<open>repr\<close> of a string: single quotes, unless the string has a single quote and no double
  quote; the quote in use, the backslash and the control characters are escaped.
\<close>

definition repr_char :: "char \<Rightarrow> char \<Rightarrow> string" where
  "repr_char q c =
     (if c = backslash then [backslash, backslash]
      else if c = q then [backslash, q]
      else if c = CHR 0x0A then [backslash, CHR ''n'']
      else if c = CHR 0x0D then [backslash, CHR ''r'']
      else if c = CHR 0x09 then [backslash, CHR ''t'']
      else if (of_char c :: nat) < 32 \<or> (of_char c :: nat) = 127
        then [backslash, CHR ''x''] @ hex2 (of_char c)
      else [c])"

definition repr_str :: "string \<Rightarrow> string" where
  "repr_str s =
     (let q = (if CHR 0x27 \<in> set s \<and> CHR 0x22 \<notin> set s then CHR 0x22 else CHR 0x27)
      in [q] @ concat (map (repr_char q) s) @ [q])"

fun py_repr :: "pyval \<Rightarrow> string"
and py_repr_list :: "pyval list \<Rightarrow> string"
and py_repr_items :: "(string \<times> pyval) list \<Rightarrow> string" where
  "py_repr PNone = ''None''"
| "py_repr (PBool b) = (if b then ''True'' else ''False'')"
| "py_repr (PInt i) = str_int i"
| "py_repr (PFloat r) = r"
| "py_repr (PStr s) = repr_str s"
| "py_repr (PList xs) = ''['' @ py_repr_list xs @ '']''"
| "py_repr (PDict d) = ''{'' @ py_repr_items d @ ''}''"
| "py_repr_list [] = []"
| "py_repr_list [x] = py_repr x"
| "py_repr_list (x # y # ys) = py_repr x @ '', '' @ py_repr_list (y # ys)"
| "py_repr_items [] = []"
| "py_repr_items [(k, v)] = repr_str k @ '': '' @ py_repr v"
| "py_repr_items ((k, v) # y # ys) =
     repr_str k @ '': '' @ py_repr v @ '', '' @ py_repr_items (y # ys)"

text \<open>\<^verbatim>\<open>str(x)\<close>, which is what an f-string field \<^verbatim>\<open>{x}\<close> inserts.\<close>

fun py_str :: "pyval \<Rightarrow> string" where
  "py_str (PStr s) = s"
| "py_str v = py_repr v"

text \<open>\<^verbatim>\<open>sep.join(xs)\<close>\<close>

fun py_join :: "string \<Rightarrow> string list \<Rightarrow> string" where
  "py_join sep [] = []"
| "py_join sep [x] = x"
| "py_join sep (x # y # ys) = x @ sep @ py_join sep (y # ys)"

subsection \<open>Exceptions\<close>

text \<open>
  An exception is a value. The constructor is the class that the \<^verbatim>\<open>except\<close> clauses
  of the source tell apart; its first argument is \<^verbatim>\<open>str(e)\<close>. \<open>HTTPStatusError\<close>
  also carries \<^verbatim>\<open>e.response.text\<close>. \<open>OtherException\<close> is any other subclass of
  \<^verbatim>\<open>Exception\<close>.
\<close>

datatype exn =
    TimeoutException string
  | ConnectError string
  | HTTPStatusError string string
  | AttributeError string
  | TypeError string
  | ValueError string
  | OtherException string

fun exn_str :: "exn \<Rightarrow> string" where
  "exn_str (TimeoutException m) = m"
| "exn_str (ConnectError m) = m"
| "exn_str (HTTPStatusError m _) = m"
| "exn_str (AttributeError m) = m"
| "exn_str (TypeError m) = m"
| "exn_str (ValueError m) = m"
| "exn_str (OtherException m) = m"

definition no_attribute :: "pyval \<Rightarrow> string \<Rightarrow> exn" where
  "no_attribute v a =
     AttributeError (sq @ type_name v @ sq @ '' object has no attribute '' @ sq @ a @ sq)"

text \<open>\<^verbatim>\<open>x.get(key, default)\<close>: a dict looks the key up, any other value has no \<^verbatim>\<open>get\<close>.\<close>

fun py_get :: "pyval \<Rightarrow> string \<Rightarrow> pyval \<Rightarrow> exn + pyval" where
  "py_get (PDict d) k dflt = Inr (case map_of d k of None \<Rightarrow> dflt | Some v \<Rightarrow> v)"
| "py_get v k dflt = Inl (no_attribute v ''get'')"

definition dict_get :: "pydict \<Rightarrow> string \<Rightarrow> pyval \<Rightarrow> pyval" where
  "dict_get d k dflt = (case map_of d k of None \<Rightarrow> dflt | Some v \<Rightarrow> v)"

section \<open>The request mediator (\<^verbatim>\<open>tools.py\<close>, \<^verbatim>\<open>make_news_api_request\<close>)\<close>

text \<open>
  What the source reads of an \<^verbatim>\<open>httpx.Response\<close>: the status code, \<^verbatim>\<open>.text\<close>, the
  outcome of \<^verbatim>\<open>.json()\<close> (the decoded value, or the exception it raises) and the message
  of the \<^verbatim>\<open>HTTPStatusError\<close> that \<^verbatim>\<open>raise_for_status()\<close> raises.
\<close>

record response =
  status_code :: int
  resp_text :: string
  json :: "exn + pyval"
  status_error :: string

text \<open>
  \<^verbatim>\<open>client.get(url, params=params, timeout=30.0)\<close>: the network is any function from
  the request to an exception or a response.
\<close>

type_synonym client = "string \<Rightarrow> pydict \<Rightarrow> exn + response"

text \<open>\<^verbatim>\<open>raise_for_status()\<close> of httpx raises unless the status is 2xx.\<close>

definition raise_for_status :: "response \<Rightarrow> exn + unit" where
  "raise_for_status r =
     (if 200 \<le> status_code r \<and> status_code r \<le> 299 then Inr ()
      else Inl (HTTPStatusError (status_error r) (resp_text r)))"

definition NEWS_API_BASE :: string where
  "NEWS_API_BASE = ''https://newsapi.org/v2''"

text \<open>The body of the \<^verbatim>\<open>try\<close> block: \<open>Inl\<close> is an exception on its way to the handlers.\<close>

definition request_try :: "client \<Rightarrow> string \<Rightarrow> pydict \<Rightarrow> exn + pyval" where
  "request_try client url params =
     (case client url params of
        Inl e \<Rightarrow> Inl e
      | Inr response \<Rightarrow>
          if status_code response = 429 then
            Inr (PStr ''Rate limit exceeded. The News API has a limit of 100 requests per day for the free tier.'')
          else if status_code response = 401 then
            Inr (PStr ''Unauthorized. API key invalid or expired.'')
          else if status_code response = 400 then
            Inr (PStr (''Bad request. Error details: '' @ resp_text response))
          else
            (case raise_for_status response of
               Inl e \<Rightarrow> Inl e
             | Inr _ \<Rightarrow>
                 (case json response of
                    Inl e \<Rightarrow> Inl e
                  | Inr data \<Rightarrow>
                      (case py_get data ''status'' PNone of
                         Inl e \<Rightarrow> Inl e
                       | Inr st \<Rightarrow>
                           if st = PStr ''error'' then
                             (case py_get data ''message'' (PStr ''Unknown error'') of
                                Inl e \<Rightarrow> Inl e
                              | Inr m \<Rightarrow> Inr (PStr (''News API error: '' @ py_str m)))
                           else Inr data))))"

text \<open>The \<^verbatim>\<open>except\<close> clauses, in the order of the source.\<close>

fun request_except :: "exn \<Rightarrow> exn + pyval" where
  "request_except (TimeoutException m) =
     Inr (PStr ''Request timed out after 30 seconds. The News API may be experiencing delays.'')"
| "request_except (ConnectError m) =
     Inr (PStr ''Failed to connect to News API. Please check your internet connection.'')"
| "request_except (HTTPStatusError m body) =
     Inr (PStr (''HTTP error occurred: '' @ m @ '' - Response: '' @ body))"
| "request_except e = Inr (PStr (''Unexpected error occurred: '' @ exn_str e))"

text \<open>
  The outcome of a call: what it returns (or raises), the caller's \<^verbatim>\<open>params\<close> object
  as the call leaves it (\<open>None\<close> when the caller passed \<^verbatim>\<open>None\<close>), and the requests put
  on the network.
\<close>

record mediator_outcome =
  returned :: "exn + pyval"
  params_after :: "pydict option"
  requests :: "(string \<times> pydict) list"

definition make_news_api_request ::
  "client \<Rightarrow> pyval \<Rightarrow> string \<Rightarrow> pydict option \<Rightarrow> mediator_outcome" where
  "make_news_api_request client API_KEY endpoint params =
     (let url = NEWS_API_BASE @ ''/'' @ endpoint;
          params1 = (case params of None \<Rightarrow> [] | Some p \<Rightarrow> p);
          params2 = AList.update ''apiKey'' API_KEY params1
      in \<lparr> returned = (case request_try client url params2 of
                         Inl e \<Rightarrow> request_except e
                       | Inr v \<Rightarrow> Inr v),
           params_after = (case params of None \<Rightarrow> None | Some p \<Rightarrow> Some params2),
           requests = [(url, params2)] \<rparr>)"

definition is_success :: "pyval \<Rightarrow> bool" where
  "is_success v = (case v of PDict _ \<Rightarrow> True | _ \<Rightarrow> False)"

definition is_failure :: "pyval \<Rightarrow> bool" where
  "is_failure v = (case v of PStr _ \<Rightarrow> True | _ \<Rightarrow> False)"

section \<open>Dates (\<^verbatim>\<open>datetime.fromisoformat\<close>, \<^verbatim>\<open>strftime\<close>)\<close>

text \<open>
  The two library calls of \<^verbatim>\<open>format_article\<close>. \<open>fromisoformat\<close> follows the format the
  Python documentation gives for it up to Python 3.10,
  \<^verbatim>\<open>YYYY-MM-DD[*HH[:MM[:SS[.fff[fff]]]][+HH:MM[:SS[.ffffff]]]]\<close>, with the range checks
  of the \<^verbatim>\<open>datetime\<close> constructor; \<open>None\<close> stands for the \<^verbatim>\<open>ValueError\<close> it raises.
  Python 3.11 and later accept further ISO 8601 forms. The properties below that hold
  "when the string parses" or "when it does not" rest only on which of the two happens,
  not on this grammar. \<open>strftime\<close> follows the documentation's table of format codes
  (\<^verbatim>\<open>%Y\<close> is the year in four digits); the C library behind it pads a year before 1000
  on some platforms and not on others, so the display form is stated for years from
  1000 on, where they agree.
\<close>

record datetime =
  year :: nat
  month :: nat
  day :: nat
  hour :: nat
  minute :: nat
  second :: nat
  microsecond :: nat
  utcoffset :: "int option"

definition is_digit :: "char \<Rightarrow> bool" where
  "is_digit c = (c \<in> set ''0123456789'')"

definition digit_val :: "char \<Rightarrow> nat" where
  "digit_val c = of_char c - 48"

definition parse_digits :: "string \<Rightarrow> nat option" where
  "parse_digits s =
     (if s \<noteq> [] \<and> list_all is_digit s
      then Some (foldl (\<lambda>a c. 10 * a + digit_val c) 0 s) else None)"

definition is_leap :: "nat \<Rightarrow> bool" where
  "is_leap y = (y mod 4 = 0 \<and> (y mod 400 = 0 \<or> y mod 100 \<noteq> 0))"

definition days_in_month :: "nat \<Rightarrow> nat \<Rightarrow> nat" where
  "days_in_month y m =
     (if m = 2 then (if is_leap y then 29 else 28)
      else if m = 4 \<or> m = 6 \<or> m = 9 \<or> m = 11 then 30 else 31)"

definition parse_isoformat_date :: "string \<Rightarrow> (nat \<times> nat \<times> nat) option" where
  "parse_isoformat_date s =
     (if length s = 10 \<and> s ! 4 = CHR ''-'' \<and> s ! 7 = CHR ''-'' then
        (case (parse_digits (take 4 s), parse_digits (take 2 (drop 5 s)),
               parse_digits (drop 8 s)) of
           (Some y, Some m, Some d) \<Rightarrow> Some (y, m, d)
         | _ \<Rightarrow> None)
      else None)"

text \<open>\<^verbatim>\<open>HH[:MM[:SS[.fff[fff]]]]\<close>: hours, minutes, seconds, microseconds.\<close>

definition parse_hh_mm_ss_ff :: "string \<Rightarrow> (nat \<times> nat \<times> nat \<times> nat) option" where
  "parse_hh_mm_ss_ff s =
     (let n = length s;
          hh = parse_digits (take 2 s);
          mm = parse_digits (take 2 (drop 3 s));
          ss = parse_digits (take 2 (drop 6 s));
          ff = parse_digits (drop 9 s)
      in if n = 2 then
           (case hh of Some h \<Rightarrow> Some (h, 0, 0, 0) | None \<Rightarrow> None)
         else if n = 5 \<and> s ! 2 = CHR '':'' then
           (case (hh, mm) of (Some h, Some m) \<Rightarrow> Some (h, m, 0, 0) | _ \<Rightarrow> None)
         else if n = 8 \<and> s ! 2 = CHR '':'' \<and> s ! 5 = CHR '':'' then
           (case (hh, mm, ss) of (Some h, Some m, Some x) \<Rightarrow> Some (h, m, x, 0) | _ \<Rightarrow> None)
         else if (n = 12 \<or> n = 15) \<and> s ! 2 = CHR '':'' \<and> s ! 5 = CHR '':''
                 \<and> s ! 8 = CHR ''.'' then
           (case (hh, mm, ss, ff) of
              (Some h, Some m, Some x, Some f) \<Rightarrow>
                Some (h, m, x, if n = 12 then f * 1000 else f)
            | _ \<Rightarrow> None)
         else None)"

definition no_sign :: "char \<Rightarrow> bool" where
  "no_sign c = (c \<noteq> CHR ''+'' \<and> c \<noteq> CHR ''-'')"

text \<open>
  The time of day and the offset from UTC, in microseconds (\<open>None\<close> when the string has
  no offset). An offset is \<^verbatim>\<open>HH:MM\<close>, \<^verbatim>\<open>HH:MM:SS\<close> or \<^verbatim>\<open>HH:MM:SS.ffffff\<close>.
\<close>

definition parse_isoformat_time ::
  "string \<Rightarrow> ((nat \<times> nat \<times> nat \<times> nat) \<times> int option) option" where
  "parse_isoformat_time t =
     (let timestr = takeWhile no_sign t;
          rest = dropWhile no_sign t
      in case parse_hh_mm_ss_ff timestr of
           None \<Rightarrow> None
         | Some tm \<Rightarrow>
             (case rest of
                [] \<Rightarrow> Some (tm, None)
              | sign # tzstr \<Rightarrow>
                  if length tzstr = 5 \<or> length tzstr = 8 \<or> length tzstr = 15 then
                    (case parse_hh_mm_ss_ff tzstr of
                       None \<Rightarrow> None
                     | Some (h, m, x, f) \<Rightarrow>
                         let us = int (((h * 60 + m) * 60 + x) * 1000000 + f)
                         in Some (tm, Some (if sign = CHR ''-'' then - us else us)))
                  else None))"

text \<open>The constructor \<^verbatim>\<open>datetime(...)\<close>: every field in its range, or \<^verbatim>\<open>ValueError\<close>.\<close>

definition make_datetime ::
  "nat \<Rightarrow> nat \<Rightarrow> nat \<Rightarrow> (nat \<times> nat \<times> nat \<times> nat) \<Rightarrow> int option \<Rightarrow> datetime option" where
  "make_datetime y m d tm tz =
     (case tm of (h, mi, x, f) \<Rightarrow>
        if 1 \<le> y \<and> y \<le> 9999 \<and> 1 \<le> m \<and> m \<le> 12 \<and> 1 \<le> d \<and> d \<le> days_in_month y m
           \<and> h < 24 \<and> mi < 60 \<and> x < 60 \<and> f < 1000000
           \<and> (case tz of None \<Rightarrow> True | Some off \<Rightarrow> \<bar>off\<bar> < 86400000000)
        then Some \<lparr>year = y, month = m, day = d, hour = h, minute = mi, second = x,
                   microsecond = f, utcoffset = tz\<rparr>
        else None)"

definition fromisoformat :: "string \<Rightarrow> datetime option" where
  "fromisoformat s =
     (case parse_isoformat_date (take 10 s) of
        None \<Rightarrow> None
      | Some (y, m, d) \<Rightarrow>
          if length s = 10 then make_datetime y m d (0, 0, 0, 0) None
          else
            (case parse_isoformat_time (drop 11 s) of
               None \<Rightarrow> None
             | Some (tm, tz) \<Rightarrow> make_datetime y m d tm tz))"

text \<open>A number in at least \<open>w\<close> digits, zeros in front (\<^verbatim>\<open>%Y\<close>, \<^verbatim>\<open>%m\<close>, \<^verbatim>\<open>%d\<close>, \<^verbatim>\<open>%H\<close>, \<^verbatim>\<open>%M\<close>).\<close>

definition zero_pad :: "nat \<Rightarrow> nat \<Rightarrow> string" where
  "zero_pad w n = replicate (w - length (str_nat n)) (CHR ''0'') @ str_nat n"

text \<open>\<^verbatim>\<open>date_obj.strftime("%Y-%m-%d %H:%M UTC")\<close>\<close>

definition strftime :: "datetime \<Rightarrow> string" where
  "strftime dt =
     zero_pad 4 (year dt) @ ''-'' @ zero_pad 2 (month dt) @ ''-'' @ zero_pad 2 (day dt)
       @ '' '' @ zero_pad 2 (hour dt) @ '':'' @ zero_pad 2 (minute dt) @ '' UTC''"

text \<open>\<^verbatim>\<open>s.replace('Z', '+00:00')\<close>\<close>

definition replace_Z :: "string \<Rightarrow> string" where
  "replace_Z s = concat (map (\<lambda>c. if c = CHR ''Z'' then ''+00:00'' else [c]) s)"

section \<open>The response formatter (\<^verbatim>\<open>tools.py\<close>)\<close>

text \<open>Sequencing of steps that may raise.\<close>

definition bind_exn :: "exn + 'a \<Rightarrow> ('a \<Rightarrow> exn + 'b) \<Rightarrow> exn + 'b" where
  "bind_exn m f = (case m of Inl e \<Rightarrow> Inl e | Inr x \<Rightarrow> f x)"

text \<open>
  The date block of \<^verbatim>\<open>format_article\<close>. A \<^verbatim>\<open>ValueError\<close> of the parser is caught by the
  inner \<^verbatim>\<open>except\<close> and the raw value is kept; a value that is true and is not a string has
  no \<^verbatim>\<open>replace\<close>, and that \<^verbatim>\<open>AttributeError\<close> is not caught here.
\<close>

definition format_date :: "pyval \<Rightarrow> exn + string" where
  "format_date published_at =
     (if truthy published_at then
        (case published_at of
           PStr s \<Rightarrow>
             (case fromisoformat (replace_Z s) of
                Some date_obj \<Rightarrow> Inr (strftime date_obj)
              | None \<Rightarrow> Inr s)
         | v \<Rightarrow> Inl (no_attribute v ''replace''))
      else Inr ''Unknown date'')"

definition format_article_try :: "pyval \<Rightarrow> exn + string" where
  "format_article_try article =
     bind_exn (py_get article ''publishedAt'' (PStr [])) (\<lambda>published_at.
     bind_exn (format_date published_at) (\<lambda>formatted_date.
     bind_exn (py_get article ''title'' (PStr ''N/A'')) (\<lambda>title.
     bind_exn (py_get article ''source'' (PDict [])) (\<lambda>source.
     bind_exn (py_get source ''name'' (PStr ''N/A'')) (\<lambda>name.
     bind_exn (py_get article ''author'' (PStr ''N/A'')) (\<lambda>author.
     bind_exn (py_get article ''description'' (PStr ''N/A'')) (\<lambda>description.
     bind_exn (py_get article ''url'' (PStr ''N/A'')) (\<lambda>url.
       Inr (''Title: '' @ py_str title @ ''\<newline>''
          @ ''Source: '' @ py_str name @ ''\<newline>''
          @ ''Author: '' @ py_str author @ ''\<newline>''
          @ ''Published: '' @ formatted_date @ ''\<newline>''
          @ ''Description: '' @ py_str description @ ''\<newline>''
          @ ''URL: '' @ py_str url @ ''\<newline>''
          @ ''---\<newline>'')))))))))"

definition format_article :: "pyval \<Rightarrow> string" where
  "format_article article =
     (case format_article_try article of
        Inr s \<Rightarrow> s
      | Inl e \<Rightarrow> ''Error formatting article data: '' @ exn_str e)"

definition format_source_try :: "pyval \<Rightarrow> exn + string" where
  "format_source_try source =
     bind_exn (py_get source ''name'' (PStr ''N/A'')) (\<lambda>name.
     bind_exn (py_get source ''id'' (PStr ''N/A'')) (\<lambda>ident.
     bind_exn (py_get source ''description'' (PStr ''N/A'')) (\<lambda>description.
     bind_exn (py_get source ''category'' (PStr ''N/A'')) (\<lambda>category.
     bind_exn (py_get source ''language'' (PStr ''N/A'')) (\<lambda>language.
     bind_exn (py_get source ''country'' (PStr ''N/A'')) (\<lambda>country.
     bind_exn (py_get source ''url'' (PStr ''N/A'')) (\<lambda>url.
       Inr (''Name: '' @ py_str name @ ''\<newline>''
          @ ''ID: '' @ py_str ident @ ''\<newline>''
          @ ''Description: '' @ py_str description @ ''\<newline>''
          @ ''Category: '' @ py_str category @ ''\<newline>''
          @ ''Language: '' @ py_str language @ ''\<newline>''
          @ ''Country: '' @ py_str country @ ''\<newline>''
          @ ''URL: '' @ py_str url @ ''\<newline>''
          @ ''---\<newline>''))))))))"

definition format_source :: "pyval \<Rightarrow> string" where
  "format_source source =
     (case format_source_try source of
        Inr s \<Rightarrow> s
      | Inl e \<Rightarrow> ''Error formatting source data: '' @ exn_str e)"

subsection \<open>Lists of items\<close>

text \<open>
  What \<^verbatim>\<open>x[:limit]\<close>, \<^verbatim>\<open>enumerate\<close> and \<^verbatim>\<open>len(x)\<close> see of a value: a list has its
  items, a string its characters; a dict cannot be sliced (\<^verbatim>\<open>TypeError\<close>; Python 3.12
  raises \<^verbatim>\<open>KeyError\<close> instead, which the same handler catches), and any other value is
  not subscriptable.
\<close>

fun py_items :: "pyval \<Rightarrow> exn + pyval list" where
  "py_items (PList xs) = Inr xs"
| "py_items (PStr s) = Inr (map (\<lambda>c. PStr [c]) s)"
| "py_items (PDict d) = Inl (TypeError (''unhashable type: '' @ sq @ ''slice'' @ sq))"
| "py_items v = Inl (TypeError (sq @ type_name v @ sq @ '' object is not subscriptable''))"

text \<open>\<^verbatim>\<open>xs[:limit]\<close>: a negative limit counts from the end.\<close>

definition slice_to :: "'a list \<Rightarrow> int \<Rightarrow> 'a list" where
  "slice_to xs limit =
     (if 0 \<le> limit then take (nat limit) xs else take (nat (int (length xs) + limit)) xs)"

text \<open>\<^verbatim>\<open>enumerate(xs, start)\<close>\<close>

fun py_enumerate :: "'a list \<Rightarrow> int \<Rightarrow> (int \<times> 'a) list" where
  "py_enumerate [] i = []"
| "py_enumerate (x # xs) i = (i, x) # py_enumerate xs (i + 1)"

definition format_articles_try :: "pyval \<Rightarrow> int \<Rightarrow> exn + string" where
  "format_articles_try articles limit =
     (if \<not> truthy articles then Inr ''No articles found.''
      else
        bind_exn (py_items articles) (\<lambda>items.
          let articles_limited = slice_to items limit;
              formatted = map (\<lambda>(i, article).
                  ''Article '' @ str_int i @ '':\<newline>'' @ format_article article)
                (py_enumerate articles_limited 1);
              formatted = (if int (length items) > limit
                then formatted @ [''\<newline>... and '' @ str_int (int (length items) - limit)
                                     @ '' more articles'']
                else formatted)
          in Inr (py_join ''\<newline>'' formatted)))"

definition format_articles :: "pyval \<Rightarrow> int \<Rightarrow> string" where
  "format_articles articles limit =
     (case format_articles_try articles limit of
        Inr s \<Rightarrow> s
      | Inl e \<Rightarrow> ''Error formatting articles: '' @ exn_str e)"

definition format_sources_try :: "pyval \<Rightarrow> int \<Rightarrow> exn + string" where
  "format_sources_try sources limit =
     (if \<not> truthy sources then Inr ''No sources found.''
      else
        bind_exn (py_items sources) (\<lambda>items.
          let sources_limited = slice_to items limit;
              formatted = map (\<lambda>(i, source).
                  ''Source '' @ str_int i @ '':\<newline>'' @ format_source source)
                (py_enumerate sources_limited 1);
              formatted = (if int (length items) > limit
                then formatted @ [''\<newline>... and '' @ str_int (int (length items) - limit)
                                     @ '' more sources'']
                else formatted)
          in Inr (py_join ''\<newline>'' formatted)))"

definition format_sources :: "pyval \<Rightarrow> int \<Rightarrow> string" where
  "format_sources sources limit =
     (case format_sources_try sources limit of
        Inr s \<Rightarrow> s
      | Inl e \<Rightarrow> ''Error formatting sources: '' @ exn_str e)"

section \<open>Tool dispatch (\<^verbatim>\<open>server.py\<close>, \<^verbatim>\<open>handle_call_tool\<close>)\<close>

text \<open>
  A tool call returns one text (the \<^verbatim>\<open>TextContent\<close> of the source) or raises; \<open>calls\<close>
  lists the requests that went out on the network during the call.
\<close>

record tool_outcome =
  result :: "exn + string"
  calls :: "(string \<times> pydict) list"

text \<open>\<^verbatim>\<open>s.upper()\<close> on ASCII letters.\<close>

definition upper_char :: "char \<Rightarrow> char" where
  "upper_char c =
     (case map_of (zip ''abcdefghijklmnopqrstuvwxyz'' ''ABCDEFGHIJKLMNOPQRSTUVWXYZ'') c of
        Some u \<Rightarrow> u
      | None \<Rightarrow> c)"

fun py_upper :: "pyval \<Rightarrow> exn + string" where
  "py_upper (PStr s) = Inr (map upper_char s)"
| "py_upper v = Inl (no_attribute v ''upper'')"

text \<open>\<^verbatim>\<open>len(x)\<close>\<close>

fun py_len :: "pyval \<Rightarrow> exn + nat" where
  "py_len (PStr s) = Inr (length s)"
| "py_len (PList xs) = Inr (length xs)"
| "py_len (PDict d) = Inr (length d)"
| "py_len v = Inl (TypeError (''object of type '' @ sq @ type_name v @ sq @ '' has no len()''))"

text \<open>
  \<^verbatim>\<open>if value := arguments.get(name): params[key] = value\<close>, the step that the three
  tools repeat for their optional parameters.
\<close>

definition add_if_given :: "pydict \<Rightarrow> string \<Rightarrow> string \<Rightarrow> pydict \<Rightarrow> pydict" where
  "add_if_given arguments param_name key params =
     (let param_value = dict_get arguments param_name PNone
      in if truthy param_value then AList.update key param_value params else params)"

subsection \<open>search-news\<close>

definition search_news_params :: "pydict \<Rightarrow> pyval \<Rightarrow> pydict" where
  "search_news_params arguments query =
     (let params = [(''q'', query),
                    (''pageSize'', dict_get arguments ''page_size'' (PInt 20)),
                    (''page'', dict_get arguments ''page'' (PInt 1)),
                    (''language'', dict_get arguments ''language'' (PStr ''en'')),
                    (''sortBy'', dict_get arguments ''sort_by'' (PStr ''publishedAt''))];
          params = add_if_given arguments ''from_date'' ''from'' params;
          params = add_if_given arguments ''to_date'' ''to'' params;
          params = add_if_given arguments ''sources'' ''sources'' params
      in params)"

text \<open>What follows the mediator's return; \<^verbatim>\<open>format_articles(articles)\<close> has the default limit 5.\<close>

definition search_news_render :: "pyval \<Rightarrow> pyval \<Rightarrow> exn + string" where
  "search_news_render query news_data =
     (case news_data of
        PStr msg \<Rightarrow> Inr (''Error: '' @ msg)
      | _ \<Rightarrow>
          bind_exn (py_get news_data ''articles'' (PList [])) (\<lambda>articles.
          bind_exn (py_get news_data ''totalResults'' (PInt 0)) (\<lambda>total_results.
            if \<not> truthy articles then
              Inr (''No articles found for query: '' @ sq @ py_str query @ sq)
            else
              let formatted_articles = format_articles articles 5
              in Inr (''Search results for '' @ sq @ py_str query @ sq @ '' (Found ''
                      @ py_str total_results @ '' articles):\<newline>\<newline>''
                      @ formatted_articles))))"

definition search_news :: "client \<Rightarrow> pyval \<Rightarrow> pydict \<Rightarrow> tool_outcome" where
  "search_news client API_KEY arguments =
     (let query = dict_get arguments ''query'' PNone
      in if \<not> truthy query then \<lparr>result = Inr ''Missing query parameter'', calls = []\<rparr>
         else
           let out = make_news_api_request client API_KEY ''everything''
                       (Some (search_news_params arguments query))
           in \<lparr>result = bind_exn (returned out) (search_news_render query),
                calls = requests out\<rparr>)"

subsection \<open>get-top-headlines\<close>

definition top_headlines_params :: "pydict \<Rightarrow> pydict" where
  "top_headlines_params arguments =
     foldl (\<lambda>params param_name.
              add_if_given arguments param_name
                (if param_name = ''query'' then ''q'' else param_name) params)
       [(''pageSize'', dict_get arguments ''page_size'' (PInt 20)),
        (''page'', dict_get arguments ''page'' (PInt 1))]
       [''country'', ''category'', ''sources'', ''query'']"

text \<open>The filters named in the title; \<^verbatim>\<open>country.upper()\<close> raises on a value that is not a string.\<close>

definition headlines_title_parts :: "pydict \<Rightarrow> exn + string list" where
  "headlines_title_parts arguments =
     (let country = dict_get arguments ''country'' PNone;
          category = dict_get arguments ''category'' PNone;
          sources = dict_get arguments ''sources'' PNone;
          query = dict_get arguments ''query'' PNone
      in bind_exn (if truthy country
                   then bind_exn (py_upper country) (\<lambda>u. Inr [''country: '' @ u])
                   else Inr [])
           (\<lambda>title_parts.
              let title_parts = (if truthy category
                    then title_parts @ [''category: '' @ py_str category] else title_parts);
                  title_parts = (if truthy sources
                    then title_parts @ [''sources: '' @ py_str sources] else title_parts);
                  title_parts = (if truthy query
                    then title_parts @ [''query: '' @ sq @ py_str query @ sq] else title_parts)
              in Inr title_parts))"

definition with_title_parts :: "string \<Rightarrow> string list \<Rightarrow> string" where
  "with_title_parts title title_parts =
     (if title_parts \<noteq> [] then title @ '' for '' @ py_join '', '' title_parts else title)"

definition top_headlines_render :: "pydict \<Rightarrow> pyval \<Rightarrow> exn + string" where
  "top_headlines_render arguments news_data =
     (case news_data of
        PStr msg \<Rightarrow> Inr (''Error: '' @ msg)
      | _ \<Rightarrow>
          bind_exn (py_get news_data ''articles'' (PList [])) (\<lambda>articles.
          bind_exn (py_get news_data ''totalResults'' (PInt 0)) (\<lambda>total_results.
            if \<not> truthy articles then Inr ''No headlines found matching your criteria''
            else
              let formatted_articles = format_articles articles 5
              in bind_exn (headlines_title_parts arguments) (\<lambda>title_parts.
                   Inr (with_title_parts ''Top headlines'' title_parts @ '' (Found ''
                        @ py_str total_results @ '' articles):\<newline>\<newline>''
                        @ formatted_articles)))))"

definition get_top_headlines :: "client \<Rightarrow> pyval \<Rightarrow> pydict \<Rightarrow> tool_outcome" where
  "get_top_headlines client API_KEY arguments =
     (if \<not> list_ex (\<lambda>param. param \<in> fst ` set arguments)
              [''country'', ''category'', ''sources'', ''query'']
      then \<lparr>result = Inr ''You must specify at least one of: country, category, sources, or query'',
            calls = []\<rparr>
      else
        let out = make_news_api_request client API_KEY ''top-headlines''
                    (Some (top_headlines_params arguments))
        in \<lparr>result = bind_exn (returned out) (top_headlines_render arguments),
             calls = requests out\<rparr>)"

subsection \<open>get-news-sources\<close>

definition news_sources_params :: "pydict \<Rightarrow> pydict" where
  "news_sources_params arguments =
     foldl (\<lambda>params param_name. add_if_given arguments param_name param_name params)
       [] [''category'', ''language'', ''country'']"

definition sources_title_parts :: "pydict \<Rightarrow> exn + string list" where
  "sources_title_parts arguments =
     (let category = dict_get arguments ''category'' PNone;
          language = dict_get arguments ''language'' PNone;
          country = dict_get arguments ''country'' PNone;
          title_parts = (if truthy category then [''category: '' @ py_str category] else []);
          title_parts = (if truthy language
                    then title_parts @ [''language: '' @ py_str language] else title_parts)
      in if truthy country
         then bind_exn (py_upper country) (\<lambda>u. Inr (title_parts @ [''country: '' @ u]))
         else Inr title_parts)"

definition news_sources_render :: "pydict \<Rightarrow> pyval \<Rightarrow> exn + string" where
  "news_sources_render arguments news_data =
     (case news_data of
        PStr msg \<Rightarrow> Inr (''Error: '' @ msg)
      | _ \<Rightarrow>
          bind_exn (py_get news_data ''sources'' (PList [])) (\<lambda>sources.
            if \<not> truthy sources then Inr ''No news sources found matching your criteria''
            else
              let formatted_sources = format_sources sources 5
              in bind_exn (sources_title_parts arguments) (\<lambda>title_parts.
                 bind_exn (py_len sources) (\<lambda>n.
                   Inr (with_title_parts ''Available news sources'' title_parts @ '' (Found ''
                        @ str_nat n @ '' sources):\<newline>\<newline>''
                        @ formatted_sources)))))"

definition get_news_sources :: "client \<Rightarrow> pyval \<Rightarrow> pydict \<Rightarrow> tool_outcome" where
  "get_news_sources client API_KEY arguments =
     (let out = make_news_api_request client API_KEY ''top-headlines/sources''
                  (Some (news_sources_params arguments))
      in \<lparr>result = bind_exn (returned out) (news_sources_render arguments),
           calls = requests out\<rparr>)"

subsection \<open>The dispatcher\<close>

definition handle_call_tool ::
  "client \<Rightarrow> pyval \<Rightarrow> string \<Rightarrow> pydict option \<Rightarrow> tool_outcome" where
  "handle_call_tool client API_KEY name arguments =
     (case arguments of
        None \<Rightarrow> \<lparr>result = Inr ''Missing arguments for the request'', calls = []\<rparr>
      | Some args \<Rightarrow>
          if args = [] then \<lparr>result = Inr ''Missing arguments for the request'', calls = []\<rparr>
          else if name = ''search-news'' then search_news client API_KEY args
          else if name = ''get-top-headlines'' then get_top_headlines client API_KEY args
          else if name = ''get-news-sources'' then get_news_sources client API_KEY args
          else \<lparr>result = Inr (''Unknown tool: '' @ name), calls = []\<rparr>)"

section \<open>Specification-side definitions\<close>

text \<open>
  The list renderer as the specification words it: the sentinel for an empty list,
  otherwise the first \<open>min limit (length items)\<close> items, each under its 1-based label,
  then a line with the number left out (\<open>length items - limit\<close>) when the list is longer
  than the limit, all joined with newlines.
\<close>

definition render_list_spec ::
  "string \<Rightarrow> string \<Rightarrow> (pyval \<Rightarrow> string) \<Rightarrow> pyval list \<Rightarrow> int \<Rightarrow> string" where
  "render_list_spec label kind render_item items limit =
     (if items = [] then ''No '' @ kind @ '' found.''
      else py_join ''\<newline>''
        (map (\<lambda>n. label @ '' '' @ str_nat (n + 1) @ '':\<newline>'' @ render_item (items ! n))
             [0 ..< nat (min limit (int (length items)))]
         @ (if int (length items) > limit
            then [''\<newline>... and '' @ str_int (int (length items) - limit) @ '' more '' @ kind]
            else [])))"

text \<open>
  The block of one article and of one source: the labelled fields in their fixed order,
  one to a line, then the separator line.
\<close>

definition article_block ::
  "string \<Rightarrow> string \<Rightarrow> string \<Rightarrow> string \<Rightarrow> string \<Rightarrow> string \<Rightarrow> string" where
  "article_block title source author published description url =
     ''Title: '' @ title @ ''\<newline>'' @ ''Source: '' @ source @ ''\<newline>''
     @ ''Author: '' @ author @ ''\<newline>'' @ ''Published: '' @ published @ ''\<newline>''
     @ ''Description: '' @ description @ ''\<newline>'' @ ''URL: '' @ url @ ''\<newline>''
     @ ''---\<newline>''"


text \<open>
  Five numbered blocks and the line that counts the rest: what a list of more than five
  items looks like under the display limit 5.
\<close>

definition five_blocks_and_summary ::
  "string \<Rightarrow> string \<Rightarrow> (pyval \<Rightarrow> string) \<Rightarrow> pyval list \<Rightarrow> string" where
  "five_blocks_and_summary label kind render_item items =
     py_join ''\<newline>''
       [label @ '' 1:\<newline>'' @ render_item (items ! 0),
        label @ '' 2:\<newline>'' @ render_item (items ! 1),
        label @ '' 3:\<newline>'' @ render_item (items ! 2),
        label @ '' 4:\<newline>'' @ render_item (items ! 3),
        label @ '' 5:\<newline>'' @ render_item (items ! 4),
        ''\<newline>... and '' @ str_nat (length items - 5) @ '' more '' @ kind]"



section \<open>Properties of the mediator\<close>

lemma request_except_str: "\<exists>s. request_except e = Inr (PStr s)"
  by (cases e) simp_all

lemma py_get_Inr_dict: "py_get v k dflt = Inr x \<Longrightarrow> \<exists>d. v = PDict d"
  by (cases v) simp_all

lemma request_try_Inr:
  assumes "request_try client url params = Inr v"
  shows "(\<exists>d. v = PDict d) \<or> (\<exists>s. v = PStr s)"
  using assms
  by (auto simp: request_try_def split: sum.splits if_splits dest: py_get_Inr_dict)

lemma returned_shape:
  "\<exists>v. returned (make_news_api_request client key endpoint params) = Inr v
       \<and> ((\<exists>d. v = PDict d) \<or> (\<exists>s. v = PStr s))"
proof (cases "request_try client (NEWS_API_BASE @ ''/'' @ endpoint)
                (AList.update ''apiKey'' key (case params of None \<Rightarrow> [] | Some p \<Rightarrow> p))")
  case (Inl e)
  obtain s where "request_except e = Inr (PStr s)"
    using request_except_str by blast
  with Inl show ?thesis
    by (simp add: make_news_api_request_def Let_def)
next
  case (Inr v)
  with request_try_Inr [OF Inr] show ?thesis
    by (simp add: make_news_api_request_def Let_def)
qed

text \<open>
  C1. Whatever the endpoint, the parameters and the behaviour of the HTTP call (an
  exception of any class, or a response of any status and body), the mediator returns
  and does not raise, and what it returns is either a dict (success) or a string
  (failure), never both and never anything else.
\<close>

theorem mediator_never_raises:
  "\<exists>v. returned (make_news_api_request client key endpoint params) = Inr v
       \<and> (is_success v \<noteq> is_failure v)"
proof -
  obtain v where r: "returned (make_news_api_request client key endpoint params) = Inr v"
    and s: "(\<exists>d. v = PDict d) \<or> (\<exists>s. v = PStr s)"
    using returned_shape by blast
  from s have "is_success v \<noteq> is_failure v"
    by (auto simp: is_success_def is_failure_def)
  with r show ?thesis by blast
qed

theorem mediator_never_raises_witness:
  "\<exists>v. returned (make_news_api_request (\<lambda>url q. Inl (OtherException ''boom''))
          (PStr ''k'') ''everything'' (Some [(''q'', PStr ''x'')])) = Inr v
       \<and> (is_success v \<noteq> is_failure v)"
  using mediator_never_raises
    [of "\<lambda>url q. Inl (OtherException ''boom'')" "PStr ''k''" "''everything''"
        "Some [(''q'', PStr ''x'')]"]
  by simp

lemma requests_eq:
  "requests (make_news_api_request client key endpoint params) = [(url, q)] \<longleftrightarrow>
     url = NEWS_API_BASE @ ''/'' @ endpoint \<and>
     q = AList.update ''apiKey'' key (case params of None \<Rightarrow> [] | Some p \<Rightarrow> p)"
  by (auto simp: make_news_api_request_def Let_def)

lemma returned_eq:
  assumes "requests (make_news_api_request client key endpoint params) = [(url, q)]"
  shows "returned (make_news_api_request client key endpoint params) =
           (case request_try client url q of Inl e \<Rightarrow> request_except e | Inr v \<Rightarrow> Inr v)"
  using assms by (auto simp: make_news_api_request_def Let_def)

text \<open>
  C2. When the response to the request has status 429, 401 or 400, the mediator returns
  the failure string of that status (the free-tier quota message, the invalid-credential
  message, the bad-request message with the response body in it), whatever else the
  response holds: the status is looked at before \<^verbatim>\<open>raise_for_status\<close> is called.
\<close>

theorem status_classified_before_raising:
  assumes "requests (make_news_api_request client key endpoint params) = [(url, q)]"
    and "client url q = Inr r"
  shows "(status_code r = 429 \<longrightarrow>
            returned (make_news_api_request client key endpoint params) =
              Inr (PStr ''Rate limit exceeded. The News API has a limit of 100 requests per day for the free tier.''))
       \<and> (status_code r = 401 \<longrightarrow>
            returned (make_news_api_request client key endpoint params) =
              Inr (PStr ''Unauthorized. API key invalid or expired.''))
       \<and> (status_code r = 400 \<longrightarrow>
            (\<exists>s. returned (make_news_api_request client key endpoint params) = Inr (PStr s)
                 \<and> s = ''Bad request. Error details: '' @ resp_text r
                 \<and> sublist (resp_text r) s))"
proof -
  have ret: "returned (make_news_api_request client key endpoint params) =
      (case request_try client url q of Inl e \<Rightarrow> request_except e | Inr v \<Rightarrow> Inr v)"
    using assms(1) by (rule returned_eq)
  have "sublist (resp_text r) (''Bad request. Error details: '' @ resp_text r)"
    by (rule suffix_imp_sublist) (simp add: suffix_def)
  then show ?thesis
    unfolding ret by (simp add: request_try_def assms(2))
qed

theorem status_classified_before_raising_witness:
  "returned (make_news_api_request
      (\<lambda>url q. Inr \<lparr>status_code = 429, resp_text = ''slow down'', json = Inr PNone,
                      status_error = ''Client error''\<rparr>)
      (PStr ''k'') ''everything'' None) =
     Inr (PStr ''Rate limit exceeded. The News API has a limit of 100 requests per day for the free tier.'')
   \<and> returned (make_news_api_request
      (\<lambda>url q. Inr \<lparr>status_code = 401, resp_text = ''who'', json = Inr PNone,
                      status_error = ''Client error''\<rparr>)
      (PStr ''k'') ''everything'' None) =
     Inr (PStr ''Unauthorized. API key invalid or expired.'')
   \<and> returned (make_news_api_request
      (\<lambda>url q. Inr \<lparr>status_code = 400, resp_text = ''bad q'', json = Inr PNone,
                      status_error = ''Client error''\<rparr>)
      (PStr ''k'') ''everything'' None) =
     Inr (PStr ''Bad request. Error details: bad q'')"
proof -
  let ?c = "\<lambda>n t. (\<lambda>url q. Inr \<lparr>status_code = n, resp_text = t, json = Inr PNone,
                      status_error = ''Client error''\<rparr>) :: client"
  have rq: "requests (make_news_api_request (?c n t) (PStr ''k'') ''everything'' None) =
      [(NEWS_API_BASE @ ''/everything'', [(''apiKey'', PStr ''k'')])]" for n t
    by (simp add: requests_eq)
  show ?thesis
    using status_classified_before_raising [OF rq [of 429 "''slow down''"]]
      status_classified_before_raising [OF rq [of 401 "''who''"]]
      status_classified_before_raising [OF rq [of 400 "''bad q''"]]
    by simp
qed

subsection \<open>The credential in the query\<close>


lemma filter_other_update:
  "filter (\<lambda>kv. fst kv \<noteq> k) (AList.update k v d) = filter (\<lambda>kv. fst kv \<noteq> k) d"
  by (induction d) auto



subsection \<open>The caller's mapping\<close>

text \<open>
  C9, as stated, fails: the source assigns \<^verbatim>\<open>params["apiKey"]\<close> on the dict object the
  caller passed, so after the call the caller's mapping has an entry it did not have.
\<close>

theorem params_left_unchanged_counterexample:
  "params_after (make_news_api_request (\<lambda>url q. Inl (TimeoutException ''t''))
       (PStr ''k'') ''everything'' (Some [(''q'', PStr ''x'')]))
     = Some [(''q'', PStr ''x''), (''apiKey'', PStr ''k'')]
   \<and> params_after (make_news_api_request (\<lambda>url q. Inl (TimeoutException ''t''))
       (PStr ''k'') ''everything'' (Some [(''q'', PStr ''x'')]))
     \<noteq> Some [(''q'', PStr ''x'')]"
  by (simp add: make_news_api_request_def Let_def)

text \<open>
  C9, amended. A call puts exactly one request on the network, and the only change to the
  caller's mapping is that \<^verbatim>\<open>apiKey\<close> is bound to the configured key afterwards: every
  other entry is there as before, in the same order, and none is added or removed.
\<close>

theorem params_changed_only_at_apiKey:
  "length (requests (make_news_api_request client key endpoint (Some p))) = 1
   \<and> (\<exists>p'. params_after (make_news_api_request client key endpoint (Some p)) = Some p'
        \<and> map_of p' = (map_of p)(''apiKey'' \<mapsto> key)
        \<and> filter (\<lambda>kv. fst kv \<noteq> ''apiKey'') p' = filter (\<lambda>kv. fst kv \<noteq> ''apiKey'') p)"
  by (simp add: make_news_api_request_def Let_def filter_other_update AList.update_conv')

theorem params_changed_only_at_apiKey_witness:
  "length (requests (make_news_api_request (\<lambda>url q. Inl (TimeoutException ''t''))
      (PStr ''k'') ''everything'' (Some [(''q'', PStr ''x''), (''page'', PInt 2)]))) = 1
   \<and> (\<exists>p'. params_after (make_news_api_request (\<lambda>url q. Inl (TimeoutException ''t''))
          (PStr ''k'') ''everything'' (Some [(''q'', PStr ''x''), (''page'', PInt 2)])) = Some p'
        \<and> map_of p' = (map_of [(''q'', PStr ''x''), (''page'', PInt 2)])(''apiKey'' \<mapsto> PStr ''k'')
        \<and> filter (\<lambda>kv. fst kv \<noteq> ''apiKey'') p'
            = filter (\<lambda>kv. fst kv \<noteq> ''apiKey'') [(''q'', PStr ''x''), (''page'', PInt 2)])"
  by (rule params_changed_only_at_apiKey)

subsection \<open>Responses with a 2xx status\<close>

text \<open>
  C3, as stated, fails: a 2xx response whose body decodes to something that is not a JSON
  object has no error marker, and the mediator does not return the decoded body; the
  \<^verbatim>\<open>.get\<close> on it raises, and the last \<^verbatim>\<open>except\<close> clause turns that into a failure string.
\<close>

theorem success_without_marker_counterexample:
  "returned (make_news_api_request
       (\<lambda>url q. Inr \<lparr>status_code = 200, resp_text = ''[]'', json = Inr (PList []),
                       status_error = []\<rparr>)
       (PStr ''k'') ''everything'' None)
     = Inr (PStr (''Unexpected error occurred: '' @ sq @ ''list'' @ sq
                   @ '' object has no attribute '' @ sq @ ''get'' @ sq))
   \<and> returned (make_news_api_request
       (\<lambda>url q. Inr \<lparr>status_code = 200, resp_text = ''[]'', json = Inr (PList []),
                       status_error = []\<rparr>)
       (PStr ''k'') ''everything'' None)
     \<noteq> Inr (PList [])"
  by (simp add: make_news_api_request_def request_try_def raise_for_status_def
      no_attribute_def)

text \<open>
  C3, amended. For a 2xx response whose body decodes to a JSON object: when the object's
  \<^verbatim>\<open>status\<close> is the string \<^verbatim>\<open>error\<close>, the mediator returns the failure string made
  of \<^verbatim>\<open>News API error: \<close> and the object's \<^verbatim>\<open>message\<close> (\<^verbatim>\<open>Unknown error\<close> when there
  is none), so a string message is contained in it; otherwise it returns the decoded
  object itself.
\<close>

theorem two_xx_object_body:
  assumes "requests (make_news_api_request client key endpoint params) = [(url, q)]"
    and "client url q = Inr r"
    and "200 \<le> status_code r" and "status_code r \<le> 299"
    and "json r = Inr (PDict d)"
  shows "(map_of d ''status'' = Some (PStr ''error'') \<longrightarrow>
            returned (make_news_api_request client key endpoint params) =
              Inr (PStr (''News API error: ''
                     @ py_str (dict_get d ''message'' (PStr ''Unknown error'')))))
       \<and> (\<forall>m. map_of d ''status'' = Some (PStr ''error'') \<and> map_of d ''message'' = Some (PStr m) \<longrightarrow>
            (\<exists>s. returned (make_news_api_request client key endpoint params) = Inr (PStr s)
                 \<and> sublist m s))
       \<and> (map_of d ''status'' \<noteq> Some (PStr ''error'') \<longrightarrow>
            returned (make_news_api_request client key endpoint params) = Inr (PDict d))"
proof -
  have ret: "returned (make_news_api_request client key endpoint params) =
      (case request_try client url q of Inl e \<Rightarrow> request_except e | Inr v \<Rightarrow> Inr v)"
    using assms(1) by (rule returned_eq)
  have st: "status_code r \<noteq> 429" "status_code r \<noteq> 401" "status_code r \<noteq> 400"
    using assms(4) by simp_all
  have ok: "raise_for_status r = Inr ()"
    using assms(3,4) by (simp add: raise_for_status_def)
  have try_eq: "request_try client url q =
      (if dict_get d ''status'' PNone = PStr ''error''
       then Inr (PStr (''News API error: '' @ py_str (dict_get d ''message'' (PStr ''Unknown error''))))
       else Inr (PDict d))"
    by (simp add: request_try_def assms(2,5) st ok dict_get_def)
  have marker: "dict_get d ''status'' PNone = PStr ''error'' \<longleftrightarrow>
      map_of d ''status'' = Some (PStr ''error'')"
    by (simp add: dict_get_def split: option.splits)
  have sub: "sublist m (''News API error: '' @ m)" for m :: string
    by (rule suffix_imp_sublist) (simp add: suffix_def)
  show ?thesis
    unfolding ret try_eq marker using sub by (simp add: dict_get_def)
qed

theorem two_xx_object_body_witness:
  "returned (make_news_api_request
       (\<lambda>url q. Inr \<lparr>status_code = 200, resp_text = [],
            json = Inr (PDict [(''status'', PStr ''error''), (''message'', PStr ''apiKeyInvalid'')]),
            status_error = []\<rparr>)
       (PStr ''k'') ''everything'' None)
     = Inr (PStr ''News API error: apiKeyInvalid'')
   \<and> returned (make_news_api_request
       (\<lambda>url q. Inr \<lparr>status_code = 200, resp_text = [],
            json = Inr (PDict [(''status'', PStr ''ok''), (''totalResults'', PInt 0)]),
            status_error = []\<rparr>)
       (PStr ''k'') ''everything'' None)
     = Inr (PDict [(''status'', PStr ''ok''), (''totalResults'', PInt 0)])"
proof -
  let ?r = "\<lambda>d. \<lparr>status_code = 200, resp_text = [], json = Inr (PDict d),
                  status_error = []\<rparr>"
  let ?c = "\<lambda>d. (\<lambda>url q. Inr (?r d)) :: client"
  let ?d1 = "[(''status'', PStr ''error''), (''message'', PStr ''apiKeyInvalid'')]"
  let ?d2 = "[(''status'', PStr ''ok''), (''totalResults'', PInt 0)]"
  have rq: "requests (make_news_api_request (?c d) (PStr ''k'') ''everything'' None) =
      [(NEWS_API_BASE @ ''/everything'', [(''apiKey'', PStr ''k'')])]" for d
    by (simp add: requests_eq)
  have ans: "?c d (NEWS_API_BASE @ ''/everything'') [(''apiKey'', PStr ''k'')] = Inr (?r d)" for d
    by simp
  have lo: "200 \<le> status_code (?r d)" and hi: "status_code (?r d) \<le> 299"
    and js: "json (?r d) = Inr (PDict d)" for d
    by simp_all
  show ?thesis
    using two_xx_object_body [OF rq ans lo hi js, of ?d1]
      two_xx_object_body [OF rq ans lo hi js, of ?d2]
    by (simp add: dict_get_def)
qed

section \<open>Properties of the formatter\<close>

lemma bind_exn_Inr [simp]: "bind_exn (Inr x) f = f x"
  by (simp add: bind_exn_def)

lemma bind_exn_Inl [simp]: "bind_exn (Inl e) f = Inl e"
  by (simp add: bind_exn_def)

lemma py_get_dict: "py_get (PDict d) k dflt = Inr (dict_get d k dflt)"
  by (simp add: dict_get_def)

lemma str_nat_numeral:
  "str_nat (numeral k) =
     (if (numeral k :: nat) < 10 then [''0123456789'' ! numeral k]
      else str_nat (numeral k div 10) @ [''0123456789'' ! (numeral k mod 10)])"
  by (rule str_nat.simps)

lemma str_nat_0: "str_nat 0 = ''0''"
  by (simp add: str_nat.simps)

lemma str_nat_1: "str_nat 1 = ''1''" "str_nat (Suc 0) = ''1''"
  by (simp_all add: str_nat.simps)

lemmas str_nat_eval = str_nat_numeral str_nat_0 str_nat_1

subsection \<open>Digits and the display form of a date\<close>
















lemma format_date_str:
  "format_date (PStr s) =
     Inr (if s = [] then ''Unknown date''
          else case fromisoformat (replace_Z s) of Some dt \<Rightarrow> strftime dt | None \<Rightarrow> s)"
  by (simp add: format_date_def split: option.splits)

subsection \<open>One item\<close>

lemma format_article_try_dict:
  "format_article_try (PDict a) =
     bind_exn (format_date (dict_get a ''publishedAt'' (PStr []))) (\<lambda>published.
     bind_exn (py_get (dict_get a ''source'' (PDict [])) ''name'' (PStr ''N/A'')) (\<lambda>name.
       Inr (article_block (py_str (dict_get a ''title'' (PStr ''N/A''))) (py_str name)
              (py_str (dict_get a ''author'' (PStr ''N/A''))) published
              (py_str (dict_get a ''description'' (PStr ''N/A'')))
              (py_str (dict_get a ''url'' (PStr ''N/A''))))))"
  by (simp add: format_article_try_def py_get_dict article_block_def del: py_get.simps(1))




lemma dict_get_Nil: "dict_get [] k dflt = dflt"
  by (simp add: dict_get_def)


lemma dict_get_present: "map_of d k = Some v \<Longrightarrow> dict_get d k dflt = v"
  by (simp add: dict_get_def)

subsection \<open>Evaluating the parser\<close>











lemma fromisoformat_unknown_date: "fromisoformat (replace_Z ''Unknown date'') = None"
  by (simp add: replace_Z_def fromisoformat_def parse_isoformat_date_def)








lemma format_date_unknown: "format_date (PStr ''Unknown date'') = Inr ''Unknown date''"
  by (simp add: format_date_str fromisoformat_unknown_date)





text \<open>
  A field that is present with the value \<^verbatim>\<open>null\<close> is not a missing key: \<^verbatim>\<open>.get\<close> returns
  \<^verbatim>\<open>None\<close> and the f-string writes it out.
\<close>

lemma null_field_rendered_as_None:
  "format_article (PDict [(''author'', PNone)]) =
     ''Title: N/A\<newline>Source: N/A\<newline>Author: None\<newline>Published: Unknown date\<newline>Description: N/A\<newline>URL: N/A\<newline>---\<newline>''"
  by (simp add: format_article_def format_article_try_dict format_date_def dict_get_def
      article_block_def)

subsection \<open>The published date\<close>




subsection \<open>Lists of items\<close>

lemma map_py_enumerate:
  "map f (py_enumerate xs k) = map (\<lambda>n. f (k + int n, xs ! n)) [0 ..< length xs]"
proof (induction xs arbitrary: k)
  case Nil
  then show ?case by simp
next
  case (Cons x xs)
  have u: "[0 ..< length (x # xs)] = 0 # map Suc [0 ..< length xs]"
    by (simp add: upt_conv_Cons map_Suc_upt del: upt_Suc)
  have a: "k + 1 + int n = k + int (Suc n)" for n
    by simp
  show ?case
    unfolding u by (simp add: Cons.IH a comp_def del: of_nat_Suc)
qed

lemma str_int_of_nat: "str_int (1 + int n) = str_nat (n + 1)"
  by (simp add: str_int_def nat_add_distrib)

lemma numbered_blocks:
  assumes "0 \<le> limit"
  shows "map (\<lambda>(i, item). label @ str_int i @ '':\<newline>'' @ render item)
           (py_enumerate (slice_to items limit) 1) =
         map (\<lambda>n. label @ str_nat (n + 1) @ '':\<newline>'' @ render (items ! n))
           [0 ..< nat (min limit (int (length items)))]"
proof -
  have len: "length (slice_to items limit) = nat (min limit (int (length items)))"
    using assms by (auto simp: slice_to_def min_def)
  have nth: "slice_to items limit ! n = items ! n" if "n < nat (min limit (int (length items)))" for n
    using that assms by (simp add: slice_to_def)
  show ?thesis
    unfolding map_py_enumerate len
    by (rule map_cong) (simp_all add: nth str_int_of_nat)
qed

lemma format_articles_list:
  assumes "0 \<le> limit"
  shows "format_articles (PList items) limit =
     render_list_spec ''Article'' ''articles'' format_article items limit"
proof (cases "items = []")
  case True
  then show ?thesis
    by (simp add: format_articles_def format_articles_try_def render_list_spec_def)
next
  case False
  have "''Article '' = ''Article'' @ '' ''" by simp
  then show ?thesis
    using False numbered_blocks [OF assms, of "''Article ''" format_article items]
    by (simp add: format_articles_def format_articles_try_def render_list_spec_def Let_def)
qed

lemma format_sources_list:
  assumes "0 \<le> limit"
  shows "format_sources (PList items) limit =
     render_list_spec ''Source'' ''sources'' format_source items limit"
proof (cases "items = []")
  case True
  then show ?thesis
    by (simp add: format_sources_def format_sources_try_def render_list_spec_def)
next
  case False
  then show ?thesis
    using numbered_blocks [OF assms, of "''Source ''" format_source items]
    by (simp add: format_sources_def format_sources_try_def render_list_spec_def Let_def)
qed

lemma upt_5: "[0 ..< 5] = [0, 1, 2, 3, 4]"
  by code_simp

lemma str_nat_2: "str_nat (Suc (Suc 0)) = ''2''"
  using str_nat_numeral [of "num.Bit0 num.One"] by (simp add: numeral_2_eq_2)

lemma render_more_than_five:
  assumes "5 < length items"
  shows "render_list_spec label kind render items 5 =
     py_join ''\<newline>''
       [label @ '' 1:\<newline>'' @ render (items ! 0),
        label @ '' 2:\<newline>'' @ render (items ! 1),
        label @ '' 3:\<newline>'' @ render (items ! 2),
        label @ '' 4:\<newline>'' @ render (items ! 3),
        label @ '' 5:\<newline>'' @ render (items ! 4),
        ''\<newline>... and '' @ str_nat (length items - 5) @ '' more '' @ kind]"
proof -
  have m: "nat (min 5 (int (length items))) = 5"
    using assms by simp
  have ne: "items \<noteq> []"
    using assms by auto
  have r: "str_int (int (length items) - 5) = str_nat (length items - 5)"
    using assms by (simp add: str_int_def nat_diff_distrib')
  show ?thesis
    unfolding render_list_spec_def m upt_5 r
    using assms ne by (simp add: str_nat_eval str_nat_2)
qed

lemma slice_to_minus_one:
  "slice_to [PDict [], PDict [], PDict []] (- 1) = [PDict [], PDict []]"
  by (simp add: slice_to_def)

text \<open>
  C5, as stated, fails for a negative limit: \<^verbatim>\<open>articles[:-1]\<close> is every item but the
  last, so a list of three is rendered with two blocks and a line that says four more,
  where the first \<open>min limit (length items)\<close> items are none.
\<close>

theorem negative_limit_counterexample:
  "format_articles (PList [PDict [], PDict [], PDict []]) (- 1) =
     py_join ''\<newline>''
       [''Article 1:\<newline>'' @ format_article (PDict []),
        ''Article 2:\<newline>'' @ format_article (PDict []),
        ''\<newline>... and 4 more articles'']
   \<and> render_list_spec ''Article'' ''articles'' format_article
        [PDict [], PDict [], PDict []] (- 1) = ''\<newline>... and 4 more articles''
   \<and> format_articles (PList [PDict [], PDict [], PDict []]) (- 1) \<noteq>
       render_list_spec ''Article'' ''articles'' format_article
         [PDict [], PDict [], PDict []] (- 1)"
  by (simp add: format_articles_def format_articles_try_def Let_def slice_to_minus_one
      render_list_spec_def str_int_def str_nat_eval)

text \<open>
  C5, amended. For every list of items and every limit that is not negative, the list
  renderer returns the \<^verbatim>\<open>No <kind> found.\<close> sentinel when the list is empty; otherwise
  it renders the first \<open>min limit (length items)\<close> items, each under its 1-based label
  (\<^verbatim>\<open>Article N:\<close>, \<^verbatim>\<open>Source N:\<close>), joined with newlines, and adds the line with the
  number left out (\<open>length items - limit\<close>) exactly when the list is longer than the
  limit. Seven articles with limit 5 give five blocks and the line
  \<^verbatim>\<open>... and 2 more articles\<close>.
\<close>

theorem list_rendering:
  assumes "0 \<le> limit"
  shows "format_articles (PList items) limit =
           render_list_spec ''Article'' ''articles'' format_article items limit
       \<and> format_sources (PList items) limit =
           render_list_spec ''Source'' ''sources'' format_source items limit
       \<and> (length items = 7 \<longrightarrow>
            format_articles (PList items) 5 =
              py_join ''\<newline>''
                [''Article 1:\<newline>'' @ format_article (items ! 0),
                 ''Article 2:\<newline>'' @ format_article (items ! 1),
                 ''Article 3:\<newline>'' @ format_article (items ! 2),
                 ''Article 4:\<newline>'' @ format_article (items ! 3),
                 ''Article 5:\<newline>'' @ format_article (items ! 4),
                 ''\<newline>... and 2 more articles''])"
proof (intro conjI impI)
  show "format_articles (PList items) limit =
      render_list_spec ''Article'' ''articles'' format_article items limit"
    using assms by (rule format_articles_list)
  show "format_sources (PList items) limit =
      render_list_spec ''Source'' ''sources'' format_source items limit"
    using assms by (rule format_sources_list)
next
  assume seven: "length items = 7"
  have "format_articles (PList items) 5 =
      render_list_spec ''Article'' ''articles'' format_article items 5"
    by (rule format_articles_list) simp
  also have "\<dots> = py_join ''\<newline>''
       [''Article'' @ '' 1:\<newline>'' @ format_article (items ! 0),
        ''Article'' @ '' 2:\<newline>'' @ format_article (items ! 1),
        ''Article'' @ '' 3:\<newline>'' @ format_article (items ! 2),
        ''Article'' @ '' 4:\<newline>'' @ format_article (items ! 3),
        ''Article'' @ '' 5:\<newline>'' @ format_article (items ! 4),
        ''\<newline>... and '' @ str_nat (length items - 5) @ '' more '' @ ''articles'']"
    by (rule render_more_than_five) (simp add: seven)
  finally show "format_articles (PList items) 5 =
              py_join ''\<newline>''
                [''Article 1:\<newline>'' @ format_article (items ! 0),
                 ''Article 2:\<newline>'' @ format_article (items ! 1),
                 ''Article 3:\<newline>'' @ format_article (items ! 2),
                 ''Article 4:\<newline>'' @ format_article (items ! 3),
                 ''Article 5:\<newline>'' @ format_article (items ! 4),
                 ''\<newline>... and 2 more articles'']"
    by (simp add: seven str_nat_eval)
qed

theorem list_rendering_witness:
  "format_articles (PList []) 5 = ''No articles found.''
   \<and> format_sources (PList []) 5 = ''No sources found.''
   \<and> format_sources (PList [PDict [], PDict []]) 5 =
       ''Source 1:\<newline>'' @ format_source (PDict []) @ ''\<newline>''
       @ ''Source 2:\<newline>'' @ format_source (PDict [])
   \<and> format_articles
       (PList [PDict [], PDict [], PDict [], PDict [], PDict [], PDict [], PDict []]) 5 =
       ''Article 1:\<newline>'' @ format_article (PDict []) @ ''\<newline>''
       @ ''Article 2:\<newline>'' @ format_article (PDict []) @ ''\<newline>''
       @ ''Article 3:\<newline>'' @ format_article (PDict []) @ ''\<newline>''
       @ ''Article 4:\<newline>'' @ format_article (PDict []) @ ''\<newline>''
       @ ''Article 5:\<newline>'' @ format_article (PDict []) @ ''\<newline>''
       @ ''\<newline>... and 2 more articles''"
proof -
  have five: "(0::int) \<le> 5" by simp
  have u2: "[0 ..< 2] = [0, 1]" by code_simp
  have e1: "format_articles (PList []) 5 = ''No articles found.''"
    and e2: "format_sources (PList []) 5 = ''No sources found.''"
    using list_rendering [OF five, of "[]"] by (simp_all add: render_list_spec_def)
  have two: "format_sources (PList [PDict [], PDict []]) 5 =
       ''Source 1:\<newline>'' @ format_source (PDict []) @ ''\<newline>''
       @ ''Source 2:\<newline>'' @ format_source (PDict [])"
    using list_rendering [OF five, of "[PDict [], PDict []]"]
    by (simp add: render_list_spec_def u2 str_nat_eval str_nat_2)
  have seven: "format_articles
       (PList [PDict [], PDict [], PDict [], PDict [], PDict [], PDict [], PDict []]) 5 =
       ''Article 1:\<newline>'' @ format_article (PDict []) @ ''\<newline>''
       @ ''Article 2:\<newline>'' @ format_article (PDict []) @ ''\<newline>''
       @ ''Article 3:\<newline>'' @ format_article (PDict []) @ ''\<newline>''
       @ ''Article 4:\<newline>'' @ format_article (PDict []) @ ''\<newline>''
       @ ''Article 5:\<newline>'' @ format_article (PDict []) @ ''\<newline>''
       @ ''\<newline>... and 2 more articles''"
    using list_rendering [OF five,
        of "[PDict [], PDict [], PDict [], PDict [], PDict [], PDict [], PDict []]",
        THEN conjunct2, THEN conjunct2]
    by simp
  show ?thesis
    by (intro conjI e1 e2 two seven)
qed

section \<open>Properties of the tools\<close>

lemma handle_call_tool_no_arguments:
  "handle_call_tool client key name None =
     \<lparr>result = Inr ''Missing arguments for the request'', calls = []\<rparr>"
  "handle_call_tool client key name (Some []) =
     \<lparr>result = Inr ''Missing arguments for the request'', calls = []\<rparr>"
  by (simp_all add: handle_call_tool_def)

lemma handle_call_tool_headlines:
  "args \<noteq> [] \<Longrightarrow>
     handle_call_tool client key ''get-top-headlines'' (Some args) =
       get_top_headlines client key args"
  by (simp add: handle_call_tool_def)

lemma handle_call_tool_search:
  "args \<noteq> [] \<Longrightarrow>
     handle_call_tool client key ''search-news'' (Some args) = search_news client key args"
  by (simp add: handle_call_tool_def)

lemma handle_call_tool_sources:
  "args \<noteq> [] \<Longrightarrow>
     handle_call_tool client key ''get-news-sources'' (Some args) =
       get_news_sources client key args"
  by (simp add: handle_call_tool_def)

text \<open>
  C7. A get-top-headlines call whose arguments hold none of the keys \<^verbatim>\<open>country\<close>,
  \<^verbatim>\<open>category\<close>, \<^verbatim>\<open>sources\<close>, \<^verbatim>\<open>query\<close> (or that has no arguments at all) returns a
  validation message and puts no request on the network.
\<close>

theorem headlines_need_a_filter:
  assumes "case arguments of None \<Rightarrow> True
           | Some args \<Rightarrow> \<forall>k \<in> {''country'', ''category'', ''sources'', ''query''}.
                           k \<notin> fst ` set args"
  shows "calls (handle_call_tool client key ''get-top-headlines'' arguments) = []
       \<and> result (handle_call_tool client key ''get-top-headlines'' arguments) =
           Inr (if arguments = None \<or> arguments = Some []
                then ''Missing arguments for the request''
                else ''You must specify at least one of: country, category, sources, or query'')"
proof (cases arguments)
  case None
  then show ?thesis by (simp add: handle_call_tool_no_arguments)
next
  case (Some args)
  show ?thesis
  proof (cases "args = []")
    case True
    with Some show ?thesis by (simp add: handle_call_tool_no_arguments)
  next
    case False
    from assms Some have "\<not> list_ex (\<lambda>param. param \<in> fst ` set args)
        [''country'', ''category'', ''sources'', ''query'']"
      by simp
    with Some False show ?thesis
      by (simp add: handle_call_tool_headlines get_top_headlines_def)
  qed
qed

theorem headlines_need_a_filter_witness:
  "calls (handle_call_tool (\<lambda>url q. Inl (OtherException ''unreachable'')) (PStr ''k'')
      ''get-top-headlines'' (Some [(''page_size'', PInt 10)])) = []
   \<and> result (handle_call_tool (\<lambda>url q. Inl (OtherException ''unreachable'')) (PStr ''k'')
      ''get-top-headlines'' (Some [(''page_size'', PInt 10)])) =
       Inr ''You must specify at least one of: country, category, sources, or query''
   \<and> calls (handle_call_tool (\<lambda>url q. Inl (OtherException ''unreachable'')) (PStr ''k'')
      ''get-top-headlines'' None) = []
   \<and> result (handle_call_tool (\<lambda>url q. Inl (OtherException ''unreachable'')) (PStr ''k'')
      ''get-top-headlines'' None) = Inr ''Missing arguments for the request''"
proof -
  have h1: "case Some [(''page_size'', PInt 10)] of None \<Rightarrow> True
           | Some args \<Rightarrow> \<forall>k \<in> {''country'', ''category'', ''sources'', ''query''}.
                           k \<notin> fst ` set args"
    by simp
  have h2: "case (None :: pydict option) of None \<Rightarrow> True
           | Some args \<Rightarrow> \<forall>k \<in> {''country'', ''category'', ''sources'', ''query''}.
                           k \<notin> fst ` set args"
    by simp
  show ?thesis
    using headlines_need_a_filter [OF h1] headlines_need_a_filter [OF h2]
    by simp
qed

subsection \<open>The display limit\<close>

lemma format_articles_five:
  assumes "5 < length items"
  shows "format_articles (PList items) 5 =
     five_blocks_and_summary ''Article'' ''articles'' format_article items"
proof -
  have "format_articles (PList items) 5 =
      render_list_spec ''Article'' ''articles'' format_article items 5"
    by (rule format_articles_list) simp
  also have "\<dots> = five_blocks_and_summary ''Article'' ''articles'' format_article items"
    unfolding five_blocks_and_summary_def using assms by (rule render_more_than_five)
  finally show ?thesis .
qed

lemma format_sources_five:
  assumes "5 < length items"
  shows "format_sources (PList items) 5 =
     five_blocks_and_summary ''Source'' ''sources'' format_source items"
proof -
  have "format_sources (PList items) 5 =
      render_list_spec ''Source'' ''sources'' format_source items 5"
    by (rule format_sources_list) simp
  also have "\<dots> = five_blocks_and_summary ''Source'' ''sources'' format_source items"
    unfolding five_blocks_and_summary_def using assms by (rule render_more_than_five)
  finally show ?thesis .
qed

lemma truthy_query_args: "truthy (dict_get args k PNone) \<Longrightarrow> args \<noteq> []"
  by (auto simp: dict_get_Nil)

lemma search_news_five:
  assumes "5 < length items"
    and "truthy (dict_get args ''query'' PNone)"
    and "returned (make_news_api_request client key ''everything''
           (Some (search_news_params args (dict_get args ''query'' PNone)))) = Inr (PDict d)"
    and "map_of d ''articles'' = Some (PList items)"
  shows "result (handle_call_tool client key ''search-news'' (Some args)) =
     Inr (''Search results for '' @ sq @ py_str (dict_get args ''query'' PNone) @ sq
          @ '' (Found '' @ py_str (dict_get d ''totalResults'' (PInt 0))
          @ '' articles):\<newline>\<newline>''
          @ five_blocks_and_summary ''Article'' ''articles'' format_article items)"
proof -
  have ne: "items \<noteq> []" using assms(1) by auto
  have render: "search_news_render q (PDict d) =
      Inr (''Search results for '' @ sq @ py_str q @ sq
          @ '' (Found '' @ py_str (dict_get d ''totalResults'' (PInt 0))
          @ '' articles):\<newline>\<newline>''
          @ format_articles (PList items) 5)" for q
    using ne assms(4)
    by (simp add: search_news_render_def py_get_dict dict_get_present del: py_get.simps(1))
  show ?thesis
    using assms(2,3) truthy_query_args [OF assms(2)]
    by (simp add: handle_call_tool_search search_news_def Let_def render
        format_articles_five [OF assms(1)])
qed

lemma top_headlines_five:
  assumes "5 < length items"
    and "list_ex (\<lambda>param. param \<in> fst ` set args) [''country'', ''category'', ''sources'', ''query'']"
    and "returned (make_news_api_request client key ''top-headlines''
           (Some (top_headlines_params args))) = Inr (PDict d)"
    and "map_of d ''articles'' = Some (PList items)"
    and "headlines_title_parts args = Inr title_parts"
  shows "result (handle_call_tool client key ''get-top-headlines'' (Some args)) =
     Inr (with_title_parts ''Top headlines'' title_parts
          @ '' (Found '' @ py_str (dict_get d ''totalResults'' (PInt 0))
          @ '' articles):\<newline>\<newline>''
          @ five_blocks_and_summary ''Article'' ''articles'' format_article items)"
proof -
  have ne: "items \<noteq> []" using assms(1) by auto
  have args: "args \<noteq> []" using assms(2) by auto
  have render: "top_headlines_render args (PDict d) =
      Inr (with_title_parts ''Top headlines'' title_parts
          @ '' (Found '' @ py_str (dict_get d ''totalResults'' (PInt 0))
          @ '' articles):\<newline>\<newline>''
          @ format_articles (PList items) 5)"
    using ne assms(4,5)
    by (simp add: top_headlines_render_def py_get_dict dict_get_present del: py_get.simps(1))
  show ?thesis
    using assms(2,3) args
    by (simp add: handle_call_tool_headlines get_top_headlines_def Let_def render
        format_articles_five [OF assms(1)])
qed

lemma news_sources_five:
  assumes "5 < length items"
    and "args \<noteq> []"
    and "returned (make_news_api_request client key ''top-headlines/sources''
           (Some (news_sources_params args))) = Inr (PDict d)"
    and "map_of d ''sources'' = Some (PList items)"
    and "sources_title_parts args = Inr title_parts"
  shows "result (handle_call_tool client key ''get-news-sources'' (Some args)) =
     Inr (with_title_parts ''Available news sources'' title_parts
          @ '' (Found '' @ str_nat (length items) @ '' sources):\<newline>\<newline>''
          @ five_blocks_and_summary ''Source'' ''sources'' format_source items)"
proof -
  have ne: "items \<noteq> []" using assms(1) by auto
  have render: "news_sources_render args (PDict d) =
      Inr (with_title_parts ''Available news sources'' title_parts
          @ '' (Found '' @ str_nat (length items) @ '' sources):\<newline>\<newline>''
          @ format_sources (PList items) 5)"
    using ne assms(4,5)
    by (simp add: news_sources_render_def py_get_dict dict_get_present del: py_get.simps(1))
  show ?thesis
    using assms(2,3)
    by (simp add: handle_call_tool_sources get_news_sources_def Let_def render
        format_sources_five [OF assms(1)])
qed

text \<open>
  C10. When the mediator returns a success payload with more than five items, each of the
  three tools returns its title line followed by the list rendered under the default
  limit 5: the first five items as numbered blocks and the line that counts the
  remainder. The arguments, \<^verbatim>\<open>page_size\<close> among them, only reach the request and the
  title (for the two tools whose title names a country, provided the title can be built:
  \<^verbatim>\<open>country\<close> is a string).
\<close>

theorem default_display_limit:
  assumes "5 < length items"
  shows "(truthy (dict_get args ''query'' PNone)
          \<and> returned (make_news_api_request client key ''everything''
               (Some (search_news_params args (dict_get args ''query'' PNone)))) = Inr (PDict d)
          \<and> map_of d ''articles'' = Some (PList items) \<longrightarrow>
          result (handle_call_tool client key ''search-news'' (Some args)) =
            Inr (''Search results for '' @ sq @ py_str (dict_get args ''query'' PNone) @ sq
                 @ '' (Found '' @ py_str (dict_get d ''totalResults'' (PInt 0))
                 @ '' articles):\<newline>\<newline>''
                 @ five_blocks_and_summary ''Article'' ''articles'' format_article items))
       \<and> (list_ex (\<lambda>param. param \<in> fst ` set args)
             [''country'', ''category'', ''sources'', ''query'']
          \<and> returned (make_news_api_request client key ''top-headlines''
               (Some (top_headlines_params args))) = Inr (PDict d)
          \<and> map_of d ''articles'' = Some (PList items)
          \<and> headlines_title_parts args = Inr title_parts \<longrightarrow>
          result (handle_call_tool client key ''get-top-headlines'' (Some args)) =
            Inr (with_title_parts ''Top headlines'' title_parts
                 @ '' (Found '' @ py_str (dict_get d ''totalResults'' (PInt 0))
                 @ '' articles):\<newline>\<newline>''
                 @ five_blocks_and_summary ''Article'' ''articles'' format_article items))
       \<and> (args \<noteq> []
          \<and> returned (make_news_api_request client key ''top-headlines/sources''
               (Some (news_sources_params args))) = Inr (PDict d)
          \<and> map_of d ''sources'' = Some (PList items)
          \<and> sources_title_parts args = Inr title_parts \<longrightarrow>
          result (handle_call_tool client key ''get-news-sources'' (Some args)) =
            Inr (with_title_parts ''Available news sources'' title_parts
                 @ '' (Found '' @ str_nat (length items) @ '' sources):\<newline>\<newline>''
                 @ five_blocks_and_summary ''Source'' ''sources'' format_source items))"
  using search_news_five [OF assms, of args client key d]
    top_headlines_five [OF assms, of args client key d title_parts]
    news_sources_five [OF assms, of args client key d title_parts]
  by blast

lemma ok_response_returned:
  assumes "map_of d ''status'' = Some (PStr ''ok'')"
  shows "returned (make_news_api_request
           (\<lambda>url q. Inr \<lparr>status_code = 200, resp_text = t, json = Inr (PDict d),
                           status_error = e\<rparr>) key endpoint params) = Inr (PDict d)"
  using assms
  by (simp add: make_news_api_request_def Let_def request_try_def raise_for_status_def)

theorem default_display_limit_witness:
  "result (handle_call_tool
      (\<lambda>url q. Inr \<lparr>status_code = 200, resp_text = [],
          json = Inr (PDict [(''status'', PStr ''ok''), (''totalResults'', PInt 38),
            (''articles'', PList [PDict [], PDict [], PDict [], PDict [], PDict [], PDict []]),
            (''sources'', PList [PDict [], PDict [], PDict [], PDict [], PDict [], PDict []])]),
          status_error = []\<rparr>)
      (PStr ''k'') ''search-news'' (Some [(''query'', PStr ''ai''), (''page_size'', PInt 100)])) =
     Inr (''Search results for 'ai' (Found 38 articles):\<newline>\<newline>''
          @ five_blocks_and_summary ''Article'' ''articles'' format_article
              [PDict [], PDict [], PDict [], PDict [], PDict [], PDict []])
   \<and> result (handle_call_tool
      (\<lambda>url q. Inr \<lparr>status_code = 200, resp_text = [],
          json = Inr (PDict [(''status'', PStr ''ok''), (''totalResults'', PInt 38),
            (''articles'', PList [PDict [], PDict [], PDict [], PDict [], PDict [], PDict []]),
            (''sources'', PList [PDict [], PDict [], PDict [], PDict [], PDict [], PDict []])]),
          status_error = []\<rparr>)
      (PStr ''k'') ''get-top-headlines''
      (Some [(''country'', PStr ''us''), (''page_size'', PInt 100)])) =
     Inr (''Top headlines for country: US (Found 38 articles):\<newline>\<newline>''
          @ five_blocks_and_summary ''Article'' ''articles'' format_article
              [PDict [], PDict [], PDict [], PDict [], PDict [], PDict []])
   \<and> result (handle_call_tool
      (\<lambda>url q. Inr \<lparr>status_code = 200, resp_text = [],
          json = Inr (PDict [(''status'', PStr ''ok''), (''totalResults'', PInt 38),
            (''articles'', PList [PDict [], PDict [], PDict [], PDict [], PDict [], PDict []]),
            (''sources'', PList [PDict [], PDict [], PDict [], PDict [], PDict [], PDict []])]),
          status_error = []\<rparr>)
      (PStr ''k'') ''get-news-sources'' (Some [(''language'', PStr ''en'')])) =
     Inr (''Available news sources for language: en (Found 6 sources):\<newline>\<newline>''
          @ five_blocks_and_summary ''Source'' ''sources'' format_source
              [PDict [], PDict [], PDict [], PDict [], PDict [], PDict []])"
proof -
  let ?six = "[PDict [], PDict [], PDict [], PDict [], PDict [], PDict []]"
  let ?d = "[(''status'', PStr ''ok''), (''totalResults'', PInt 38),
            (''articles'', PList ?six), (''sources'', PList ?six)]"
  let ?c = "(\<lambda>url q. Inr \<lparr>status_code = 200, resp_text = [], json = Inr (PDict ?d),
                status_error = []\<rparr>) :: client"
  let ?a1 = "[(''query'', PStr ''ai''), (''page_size'', PInt 100)]"
  let ?a2 = "[(''country'', PStr ''us''), (''page_size'', PInt 100)]"
  let ?a3 = "[(''language'', PStr ''en'')]"
  have len: "5 < length ?six" by simp
  have ret: "returned (make_news_api_request ?c (PStr ''k'') endpoint params) = Inr (PDict ?d)"
    for endpoint params
    by (rule ok_response_returned) simp
  have art: "map_of ?d ''articles'' = Some (PList ?six)"
    and src: "map_of ?d ''sources'' = Some (PList ?six)"
    by simp_all
  have q: "truthy (dict_get ?a1 ''query'' PNone)"
    by (simp add: dict_get_def)
  have flt: "list_ex (\<lambda>param. param \<in> fst ` set ?a2)
      [''country'', ''category'', ''sources'', ''query'']"
    by simp
  have t2: "headlines_title_parts ?a2 = Inr [''country: US'']"
    by (simp add: headlines_title_parts_def dict_get_def upper_char_def)
  have t3: "sources_title_parts ?a3 = Inr [''language: en'']"
    by (simp add: sources_title_parts_def dict_get_def)
  have found: "py_str (dict_get ?d ''totalResults'' (PInt 0)) = ''38''"
    by (simp add: dict_get_def str_int_def str_nat_eval)
  have l6: "length ?six = 6"
    by simp
  have six: "str_nat (length ?six) = ''6''"
    unfolding l6 by (simp add: str_nat_eval)
  have "result (handle_call_tool ?c (PStr ''k'') ''search-news'' (Some ?a1)) =
      Inr (''Search results for '' @ sq @ py_str (dict_get ?a1 ''query'' PNone) @ sq
           @ '' (Found '' @ py_str (dict_get ?d ''totalResults'' (PInt 0))
           @ '' articles):\<newline>\<newline>''
           @ five_blocks_and_summary ''Article'' ''articles'' format_article ?six)"
    by (rule default_display_limit [where items = ?six and d = ?d, OF len,
          THEN conjunct1, THEN mp])
      (intro conjI q ret art)
  then have r1: "result (handle_call_tool ?c (PStr ''k'') ''search-news'' (Some ?a1)) =
      Inr (''Search results for 'ai' (Found 38 articles):\<newline>\<newline>''
           @ five_blocks_and_summary ''Article'' ''articles'' format_article ?six)"
    unfolding found by (simp add: dict_get_def)
  have "result (handle_call_tool ?c (PStr ''k'') ''get-top-headlines'' (Some ?a2)) =
      Inr (with_title_parts ''Top headlines'' [''country: US'']
           @ '' (Found '' @ py_str (dict_get ?d ''totalResults'' (PInt 0))
           @ '' articles):\<newline>\<newline>''
           @ five_blocks_and_summary ''Article'' ''articles'' format_article ?six)"
    by (rule default_display_limit [where items = ?six and d = ?d, OF len,
          THEN conjunct2, THEN conjunct1, THEN mp])
      (intro conjI flt ret art t2)
  then have r2: "result (handle_call_tool ?c (PStr ''k'') ''get-top-headlines'' (Some ?a2)) =
      Inr (''Top headlines for country: US (Found 38 articles):\<newline>\<newline>''
           @ five_blocks_and_summary ''Article'' ''articles'' format_article ?six)"
    unfolding found by (simp add: with_title_parts_def)
  have "result (handle_call_tool ?c (PStr ''k'') ''get-news-sources'' (Some ?a3)) =
      Inr (with_title_parts ''Available news sources'' [''language: en'']
           @ '' (Found '' @ str_nat (length ?six) @ '' sources):\<newline>\<newline>''
           @ five_blocks_and_summary ''Source'' ''sources'' format_source ?six)"
    by (rule default_display_limit [where items = ?six and d = ?d, OF len,
          THEN conjunct2, THEN conjunct2, THEN mp])
      (simp add: ret t3)
  then have r3: "result (handle_call_tool ?c (PStr ''k'') ''get-news-sources'' (Some ?a3)) =
      Inr (''Available news sources for language: en (Found 6 sources):\<newline>\<newline>''
           @ five_blocks_and_summary ''Source'' ''sources'' format_source ?six)"
    unfolding six by (simp add: with_title_parts_def)
  show ?thesis
    by (intro conjI r1 r2 r3)
qed

end
